theory Spec2Isabelle
  imports Complex_Main
begin

section \<open>Data frames as the notebook uses them\<close>

text \<open>
  The notebook reads a CSV file into a pandas data frame and works on it with four
  operations: column selection \<^verbatim>\<open>d[name]\<close>, comparison of a column with a string,
  boolean-mask row selection \<^verbatim>\<open>d[mask]\<close> and \<^verbatim>\<open>dropna\<close>. A frame is modelled by its
  column names and its records in file order; a record carries its index label (the
  line number \<^verbatim>\<open>read_csv\<close> assigns) and one cell per column name. A cell read from a
  CSV file is missing (NaN), a string or a number.
\<close>

datatype cell = NA | Str string | Num real

type_synonym record_row = "nat \<times> (string \<Rightarrow> cell)"

record frame =
  columns :: "string list"
  records :: "record_row list"

text \<open>A pandas Series: index labels paired with values, in frame order.\<close>

type_synonym series = "(nat \<times> cell) list"

datatype error = KeyError "string list" | ValueError

text \<open>\<^verbatim>\<open>d[name]\<close>: the named column, or KeyError when the frame has no such column.\<close>

definition getitem :: "frame \<Rightarrow> string \<Rightarrow> error + series" where
  "getitem d name =
     (if name \<in> set (columns d)
      then Inr (map (\<lambda>(i, r). (i, r name)) (records d))
      else Inl (KeyError [name]))"

text \<open>
  \<^verbatim>\<open>series == "A"\<close>: the element-wise comparison. A missing or numeric cell is not
  equal to any string, so it gives False.
\<close>

definition eq_scalar :: "series \<Rightarrow> string \<Rightarrow> bool list" where
  "eq_scalar s v = map (\<lambda>(i, c). c = Str v) s"

text \<open>
  \<^verbatim>\<open>d[mask]\<close> with a boolean mask computed from \<^verbatim>\<open>d\<close> itself (so it has the frame's
  index): the records whose mask entry is True, in their order.
\<close>

definition getitem_mask :: "frame \<Rightarrow> bool list \<Rightarrow> frame" where
  "getitem_mask d flags = d\<lparr>records := map fst (filter snd (zip (records d) flags))\<rparr>"

text \<open>
  \<^verbatim>\<open>d.dropna(axis=0, how='any', subset=names)\<close>: KeyError listing the names that are
  not columns; otherwise the records with no missing cell among the named columns.
\<close>

definition dropna :: "frame \<Rightarrow> string list \<Rightarrow> error + frame" where
  "dropna d names =
     (let absent = filter (\<lambda>c. c \<notin> set (columns d)) names in
      if absent \<noteq> [] then Inl (KeyError absent)
      else Inr (d\<lparr>records :=
                  filter (\<lambda>(i, r). list_all (\<lambda>c. r c \<noteq> NA) names) (records d)\<rparr>))"

text \<open>\<^verbatim>\<open>series.values\<close>: the values without the index.\<close>

definition values_of :: "series \<Rightarrow> cell list" where
  "values_of s = map snd s"

text \<open>
  \<^verbatim>\<open>numpy.stack(arrays, axis=1)\<close> on one-dimensional arrays: ValueError when there is
  no array or the arrays differ in length; otherwise the matrix whose row \<open>k\<close> holds
  entry \<open>k\<close> of every array.
\<close>

definition stack_axis1 :: "cell list list \<Rightarrow> error + cell list list" where
  "stack_axis1 arrays =
     (case arrays of
        [] \<Rightarrow> Inl ValueError
      | a # rest \<Rightarrow>
          if list_all (\<lambda>b. length b = length a) rest
          then Inr (map (\<lambda>k. map (\<lambda>b. b ! k) arrays) [0..<length a])
          else Inl ValueError)"

text \<open>
  The generator \<^verbatim>\<open>(d[col_name].values for col_name in X_COL_NAMES)\<close>: the columns are
  selected left to right and the first failure ends the run.
\<close>

fun column_values :: "frame \<Rightarrow> string list \<Rightarrow> error + cell list list" where
  "column_values d [] = Inr []"
| "column_values d (name # names) =
     (case getitem d name of
        Inl e \<Rightarrow> Inl e
      | Inr s \<Rightarrow>
          (case column_values d names of
             Inl e \<Rightarrow> Inl e
           | Inr vs \<Rightarrow> Inr (values_of s # vs)))"

section \<open>Data preparation\<close>

text \<open>
  The three notebook cells that build \<^verbatim>\<open>X\<close> and \<^verbatim>\<open>Y_pandas\<close>, with the constants of
  the cells (context column and value, predictor columns, gold-label column) as
  arguments:
  \<^verbatim>\<open>
  d = d[d["Following Vowel"] == "A"]
  d = d.dropna(axis=0, how='any', subset=X_COL_NAMES)
  X = stack((d[col_name].values for col_name in X_COL_NAMES), axis=1)
  Y_pandas = d["Nasal Segment"]
  \<close>
  The cells also log the shape of \<^verbatim>\<open>X\<close> and display the label counts; neither changes
  \<^verbatim>\<open>X\<close> or \<^verbatim>\<open>Y_pandas\<close>, and the model leaves them out.
\<close>

definition prepare ::
  "string \<Rightarrow> string \<Rightarrow> string list \<Rightarrow> string \<Rightarrow> frame \<Rightarrow> error + (cell list list \<times> series)" where
  "prepare ctx_col ctx_val x_col_names y_col d0 =
     (case getitem d0 ctx_col of
        Inl e \<Rightarrow> Inl e
      | Inr s \<Rightarrow>
          (case dropna (getitem_mask d0 (eq_scalar s ctx_val)) x_col_names of
             Inl e \<Rightarrow> Inl e
           | Inr d \<Rightarrow>
               (case column_values d x_col_names of
                  Inl e \<Rightarrow> Inl e
                | Inr arrays \<Rightarrow>
                    (case stack_axis1 arrays of
                       Inl e \<Rightarrow> Inl e
                     | Inr X \<Rightarrow>
                         (case getitem d y_col of
                            Inl e \<Rightarrow> Inl e
                          | Inr Y_pandas \<Rightarrow> Inr (X, Y_pandas))))))"

definition X_COL_NAMES :: "string list" where
  "X_COL_NAMES = [''Juncture F1_Bark'', ''Juncture F2_Bark'', ''Juncture F3_Bark'']"

definition notebook_prepare :: "frame \<Rightarrow> error + (cell list list \<times> series)" where
  "notebook_prepare d0 = prepare ''Following Vowel'' ''A'' X_COL_NAMES ''Nasal Segment'' d0"

text \<open>
  The specification's eligibility condition, in its words: the context column equals
  the required value and every predictor column is non-missing.
\<close>

definition eligible :: "string \<Rightarrow> string \<Rightarrow> string list \<Rightarrow> record_row \<Rightarrow> bool" where
  "eligible ctx_col ctx_val x_col_names row =
     (snd row ctx_col = Str ctx_val \<and> list_all (\<lambda>c. snd row c \<noteq> NA) x_col_names)"

definition eligible_rows :: "string \<Rightarrow> string \<Rightarrow> string list \<Rightarrow> frame \<Rightarrow> record_row list" where
  "eligible_rows ctx_col ctx_val x_col_names d0 =
     filter (eligible ctx_col ctx_val x_col_names) (records d0)"

text \<open>
  A frame that differs from \<open>d0\<close> in the cells of one column only: used to state that
  a column has no influence on which rows are kept.
\<close>

definition assign_column :: "string \<Rightarrow> (record_row \<Rightarrow> cell) \<Rightarrow> frame \<Rightarrow> frame" where
  "assign_column name g d0 =
     d0\<lparr>records := map (\<lambda>row. (fst row, (snd row)(name := g row))) (records d0)\<rparr>"

text \<open>One line of the CSV file, by the five columns the notebook reads.\<close>

definition csv_line :: "cell \<Rightarrow> cell \<Rightarrow> cell \<Rightarrow> cell \<Rightarrow> cell \<Rightarrow> string \<Rightarrow> cell" where
  "csv_line following_vowel f1 f2 f3 nasal name =
     (if name = ''Following Vowel'' then following_vowel
      else if name = ''Juncture F1_Bark'' then f1
      else if name = ''Juncture F2_Bark'' then f2
      else if name = ''Juncture F3_Bark'' then f3
      else if name = ''Nasal Segment'' then nasal
      else NA)"

text \<open>
  A small file: line 1 has another vowel, line 2 lacks a formant, line 3 has no gold
  label, line 4 has no vowel.
\<close>

definition sample_frame :: frame where
  "sample_frame =
     \<lparr>columns = [''Nasal Segment'', ''Following Vowel'', ''Juncture F1_Bark'',
                 ''Juncture F2_Bark'', ''Juncture F3_Bark''],
      records =
        [(0, csv_line (Str ''A'') (Num 5) (Num 12) (Num 15) (Str ''N'')),
         (1, csv_line (Str ''I'') (Num 3) (Num 13) (Num 16) (Str ''M'')),
         (2, csv_line (Str ''A'') (Num 4) NA (Num 15) (Str ''N'')),
         (3, csv_line (Str ''A'') (Num 6) (Num 11) (Num 14) NA),
         (4, csv_line NA (Num 6) (Num 11) (Num 14) (Str ''NG''))]\<rparr>"

section \<open>Cluster evaluation\<close>

text \<open>
  \<^verbatim>\<open>
  def score_clustering(gld, hyp, logger):
    logger("B-Cubed F1:\t\t%.3f", ClusterScore(gld, hyp).f1())
    logger("Normalized MI:\t%.3f", normalized_mutual_info_score(gld, hyp))
  \<close>
  The two metric routines are imported (from \<^verbatim>\<open>bcubed\<close> and \<^verbatim>\<open>sklearn\<close>); they are
  arguments of the model, each either raising or giving a number. The logger is the
  third argument of the source function; it acts on a log, which the model passes
  through (the logger itself is taken not to raise, as \<^verbatim>\<open>logging.info\<close> does not). The
  function body has no \<^verbatim>\<open>return\<close> statement, so a call that does not raise evaluates
  to None. A raise in the second routine leaves the first line logged.
\<close>

datatype 'm py_value = PyNone | MetricPair (bcubedF1: 'm) (normalizedMutualInformation: 'm)

definition BCUBED_FORMAT :: string where
  "BCUBED_FORMAT = ''B-Cubed F1:'' @ [CHR 0x09, CHR 0x09] @ ''%.3f''"

definition NMI_FORMAT :: string where
  "NMI_FORMAT = ''Normalized MI:'' @ [CHR 0x09] @ ''%.3f''"

definition score_clustering ::
  "('g list \<Rightarrow> 'h list \<Rightarrow> 'e + 'm) \<Rightarrow> ('g list \<Rightarrow> 'h list \<Rightarrow> 'e + 'm) \<Rightarrow>
   'g list \<Rightarrow> 'h list \<Rightarrow> (string \<Rightarrow> 'm \<Rightarrow> 's \<Rightarrow> 's) \<Rightarrow> 's \<Rightarrow> ('e + 'm py_value) \<times> 's" where
  "score_clustering ClusterScore_f1 normalized_mutual_info_score gld hyp logger log0 =
     (case ClusterScore_f1 gld hyp of
        Inl e \<Rightarrow> (Inl e, log0)
      | Inr f1 \<Rightarrow>
          let log1 = logger BCUBED_FORMAT f1 log0 in
          (case normalized_mutual_info_score gld hyp of
             Inl e \<Rightarrow> (Inl e, log1)
           | Inr nmi \<Rightarrow> (Inr PyNone, logger NMI_FORMAT nmi log1)))"

text \<open>
  \<^verbatim>\<open>logging.info\<close> under \<^verbatim>\<open>basicConfig(level=logging.INFO)\<close>: the record is emitted; the
  log is the list of emitted records, each the format string with its argument.
\<close>

definition logging_info :: "string \<Rightarrow> 'm \<Rightarrow> (string \<times> 'm) list \<Rightarrow> (string \<times> 'm) list" where
  "logging_info fmt v log0 = log0 @ [(fmt, v)]"

text \<open>The specification's contract: the call's value is a pair of metrics.\<close>

definition returns_metric_pair :: "('e + 'm py_value) \<times> 's \<Rightarrow> bool" where
  "returns_metric_pair outcome =
     (case fst outcome of
        Inl e \<Rightarrow> False
      | Inr PyNone \<Rightarrow> False
      | Inr (MetricPair f1 nmi) \<Rightarrow> True)"

datatype unmodelled = Unmodelled

text \<open>
  Modelled from the spec: the metric routines \<^verbatim>\<open>bcubed.ClusterScore.f1\<close> and
  \<^verbatim>\<open>sklearn.metrics.cluster.normalized_mutual_info_score\<close> are imported by the
  notebook and defined nowhere in it. The specification gives their values on one
  concrete scenario, gold = [A,A,B,B] and hypothesis = [0,0,1,1]: both are 1.0. The
  stand-ins below answer on that scenario only.
\<close>

definition scenario_gold :: "string list" where
  "scenario_gold = [''A'', ''A'', ''B'', ''B'']"

definition scenario_hyp :: "nat list" where
  "scenario_hyp = [0, 0, 1, 1]"

definition scenario_f1 :: "string list \<Rightarrow> nat list \<Rightarrow> unmodelled + real" where
  "scenario_f1 gld hyp =
     (if gld = scenario_gold \<and> hyp = scenario_hyp then Inr 1 else Inl Unmodelled)"

definition scenario_nmi :: "string list \<Rightarrow> nat list \<Rightarrow> unmodelled + real" where
  "scenario_nmi gld hyp =
     (if gld = scenario_gold \<and> hyp = scenario_hyp then Inr 1 else Inl Unmodelled)"

section \<open>Properties of data preparation\<close>

lemma mask_filter: "map fst (filter snd (zip xs (map p xs))) = filter p xs"
  by (induction xs) auto

lemma select_records:
  "getitem d0 c = Inr s \<Longrightarrow>
   records (getitem_mask d0 (eq_scalar s v)) = filter (\<lambda>row. snd row c = Str v) (records d0)"
  by (auto simp: getitem_def getitem_mask_def eq_scalar_def split: if_splits
      simp: comp_def case_prod_unfold mask_filter)

lemma column_values_ok:
  "set names \<subseteq> set (columns d) \<Longrightarrow>
   column_values d names = Inr (map (\<lambda>c. map (\<lambda>row. snd row c) (records d)) names)"
  by (induction names) (auto simp: getitem_def values_of_def comp_def case_prod_unfold)

lemma stack_columns:
  assumes "names \<noteq> []"
  shows "stack_axis1 (map (\<lambda>c. map (\<lambda>row. snd row c) rs) names) =
     Inr (map (\<lambda>row. map (snd row) names) rs)"
proof -
  let ?arrays = "map (\<lambda>c. map (\<lambda>row. snd row c) rs) names"
  have row: "map (\<lambda>b. b ! k) ?arrays = map (snd (rs ! k)) names" if "k < length rs" for k
    using that by simp
  have "map (\<lambda>k. map (\<lambda>b. b ! k) ?arrays) [0..<length rs] =
        map (\<lambda>k. map (snd (rs ! k)) names) [0..<length rs]"
    using row by simp
  also have "\<dots> = map (\<lambda>row. map (snd row) names) rs"
    by (rule nth_equalityI) simp_all
  finally have body: "map (\<lambda>k. map (\<lambda>b. b ! k) ?arrays) [0..<length rs] =
        map (\<lambda>row. map (snd row) names) rs" .
  obtain c cs where names: "names = c # cs"
    using assms by (cases names) auto
  have "stack_axis1 ?arrays =
        Inr (map (\<lambda>k. map (\<lambda>b. b ! k) ?arrays) [0..<length rs])"
    by (simp add: stack_axis1_def names list_all_iff)
  with body show ?thesis by simp
qed

lemma dropna_ok:
  "set names \<subseteq> set (columns d) \<Longrightarrow>
   dropna d names =
     Inr (d\<lparr>records := filter (\<lambda>row. list_all (\<lambda>c. snd row c \<noteq> NA) names) (records d)\<rparr>)"
  by (auto simp: dropna_def Let_def filter_empty_conv case_prod_unfold)

text \<open>
  With every named column present and at least one predictor column, the cells run
  without error; the matrix and the label series are both read off the eligible rows.
\<close>

lemma prepare_result:
  assumes "ctx_col \<in> set (columns d0)" "set x_col_names \<subseteq> set (columns d0)"
    "x_col_names \<noteq> []" "y_col \<in> set (columns d0)"
  shows "prepare ctx_col ctx_val x_col_names y_col d0 =
     Inr (map (\<lambda>row. map (snd row) x_col_names) (eligible_rows ctx_col ctx_val x_col_names d0),
          map (\<lambda>row. (fst row, snd row y_col)) (eligible_rows ctx_col ctx_val x_col_names d0))"
proof -
  obtain s where s: "getitem d0 ctx_col = Inr s"
    using assms(1) by (simp add: getitem_def)
  let ?d1 = "getitem_mask d0 (eq_scalar s ctx_val)"
  have cols1: "columns ?d1 = columns d0"
    by (simp add: getitem_mask_def)
  have recs1: "records ?d1 = filter (\<lambda>row. snd row ctx_col = Str ctx_val) (records d0)"
    using s by (rule select_records)
  let ?d2 = "?d1\<lparr>records := filter (\<lambda>row. list_all (\<lambda>c. snd row c \<noteq> NA) x_col_names) (records ?d1)\<rparr>"
  have d2: "dropna ?d1 x_col_names = Inr ?d2"
    using assms(2) cols1 by (simp add: dropna_ok)
  have cols2: "columns ?d2 = columns d0"
    using cols1 by simp
  have recs2: "records ?d2 = eligible_rows ctx_col ctx_val x_col_names d0"
    by (simp add: recs1 eligible_rows_def conj_commute)
      (rule filter_cong, simp_all add: eligible_def conj_commute)
  have arrays: "column_values ?d2 x_col_names =
      Inr (map (\<lambda>c. map (\<lambda>row. snd row c) (records ?d2)) x_col_names)"
    using assms(2) cols2 by (intro column_values_ok) simp
  have X: "stack_axis1 (map (\<lambda>c. map (\<lambda>row. snd row c) (records ?d2)) x_col_names) =
      Inr (map (\<lambda>row. map (snd row) x_col_names) (records ?d2))"
    using assms(3) by (rule stack_columns)
  have Y: "getitem ?d2 y_col = Inr (map (\<lambda>row. (fst row, snd row y_col)) (records ?d2))"
    using assms(4) cols2 by (simp add: getitem_def case_prod_unfold)
  show ?thesis
    unfolding prepare_def s sum.case d2 arrays X Y by (simp only: recs2)
qed

lemma sample_eligible:
  "eligible_rows ''Following Vowel'' ''A'' X_COL_NAMES sample_frame =
    [(0, csv_line (Str ''A'') (Num 5) (Num 12) (Num 15) (Str ''N'')),
     (3, csv_line (Str ''A'') (Num 6) (Num 11) (Num 14) NA)]"
  by (simp add: eligible_rows_def eligible_def sample_frame_def X_COL_NAMES_def csv_line_def)

text \<open>
  Claim C2. For every filtering configuration whose columns exist in the frame (with at
  least one predictor column), the cells produce a feature matrix and a gold-label
  series; the matrix has as many rows as the series has labels, and that number is the
  number of source rows whose context column equals the required value and whose
  predictor columns are all non-missing. Row \<open>k\<close> of the matrix and label \<open>k\<close> both come
  from the \<open>k\<close>-th such source row, counted in input order.
\<close>

theorem prepare_rows_aligned:
  assumes "ctx_col \<in> set (columns d0)" "set x_col_names \<subseteq> set (columns d0)"
    "x_col_names \<noteq> []" "y_col \<in> set (columns d0)"
  shows "\<exists>X Y_pandas.
     prepare ctx_col ctx_val x_col_names y_col d0 = Inr (X, Y_pandas) \<and>
     length X = length Y_pandas \<and>
     length Y_pandas = length (filter (eligible ctx_col ctx_val x_col_names) (records d0)) \<and>
     (\<forall>k < length Y_pandas.
        X ! k = map (snd (eligible_rows ctx_col ctx_val x_col_names d0 ! k)) x_col_names \<and>
        Y_pandas ! k = (fst (eligible_rows ctx_col ctx_val x_col_names d0 ! k),
                        snd (eligible_rows ctx_col ctx_val x_col_names d0 ! k) y_col))"
  unfolding prepare_result [OF assms]
  by (simp add: eligible_rows_def)

text \<open>
  Witness for C2: the notebook's configuration on the sample file. Lines 0 and 3 are
  the eligible ones, and the outputs are read off them in that order.
\<close>

theorem prepare_rows_aligned_witness:
  "''Following Vowel'' \<in> set (columns sample_frame) \<and>
   set X_COL_NAMES \<subseteq> set (columns sample_frame) \<and>
   X_COL_NAMES \<noteq> [] \<and>
   ''Nasal Segment'' \<in> set (columns sample_frame) \<and>
   length (filter (eligible ''Following Vowel'' ''A'' X_COL_NAMES) (records sample_frame)) = 2 \<and>
   prepare ''Following Vowel'' ''A'' X_COL_NAMES ''Nasal Segment'' sample_frame =
     Inr ([[Num 5, Num 12, Num 15], [Num 6, Num 11, Num 14]], [(0, Str ''N''), (3, NA)])"
proof -
  have h1: "''Following Vowel'' \<in> set (columns sample_frame)"
    by (simp add: sample_frame_def)
  have h2: "set X_COL_NAMES \<subseteq> set (columns sample_frame)"
    by (simp add: sample_frame_def X_COL_NAMES_def)
  have h3: "X_COL_NAMES \<noteq> []"
    by (simp add: X_COL_NAMES_def)
  have h4: "''Nasal Segment'' \<in> set (columns sample_frame)"
    by (simp add: sample_frame_def)
  from prepare_rows_aligned [OF h1 h2 h3 h4, of "''A''"]
  obtain X Y_pandas where
    run: "prepare ''Following Vowel'' ''A'' X_COL_NAMES ''Nasal Segment'' sample_frame = Inr (X, Y_pandas)"
    and len: "length X = length Y_pandas"
      "length Y_pandas = length (filter (eligible ''Following Vowel'' ''A'' X_COL_NAMES) (records sample_frame))"
    and rows: "\<forall>k < length Y_pandas.
        X ! k = map (snd (eligible_rows ''Following Vowel'' ''A'' X_COL_NAMES sample_frame ! k)) X_COL_NAMES \<and>
        Y_pandas ! k = (fst (eligible_rows ''Following Vowel'' ''A'' X_COL_NAMES sample_frame ! k),
                        snd (eligible_rows ''Following Vowel'' ''A'' X_COL_NAMES sample_frame ! k) ''Nasal Segment'')"
    by blast
  have n: "length (filter (eligible ''Following Vowel'' ''A'' X_COL_NAMES) (records sample_frame)) = 2"
    using sample_eligible by (simp add: eligible_rows_def)
  have lenY: "length Y_pandas = 2" and lenX: "length X = 2"
    using len n by simp_all
  have r0: "X ! 0 = [Num 5, Num 12, Num 15]" "Y_pandas ! 0 = (0, Str ''N'')"
    using rows lenY unfolding sample_eligible by (simp_all add: X_COL_NAMES_def csv_line_def)
  have r1: "X ! 1 = [Num 6, Num 11, Num 14]" "Y_pandas ! 1 = (3, NA)"
    using rows lenY unfolding sample_eligible by (simp_all add: X_COL_NAMES_def csv_line_def)
  have X: "X = [[Num 5, Num 12, Num 15], [Num 6, Num 11, Num 14]]"
    using lenX r0(1) r1(1) by (intro nth_equalityI) (auto simp: less_Suc_eq numeral_2_eq_2)
  have Y: "Y_pandas = [(0, Str ''N''), (3, NA)]"
    using lenY r0(2) r1(2) by (intro nth_equalityI) (auto simp: less_Suc_eq numeral_2_eq_2)
  show ?thesis
    using h1 h2 h3 h4 n run X Y by simp
qed

text \<open>
  When no row is eligible the cells still run to the end: the matrix and the label
  series are empty, and no error is raised at this stage.
\<close>

lemma prepare_no_eligible_rows:
  assumes "ctx_col \<in> set (columns d0)" "set x_col_names \<subseteq> set (columns d0)"
    "x_col_names \<noteq> []" "y_col \<in> set (columns d0)"
    and "eligible_rows ctx_col ctx_val x_col_names d0 = []"
  shows "prepare ctx_col ctx_val x_col_names y_col d0 = Inr ([], [])"
  using prepare_result [OF assms(1-4), of ctx_val] assms(5) by simp

subsection \<open>The gold-label column plays no part in row selection\<close>

lemma eligible_assign_column:
  assumes "name \<noteq> ctx_col" "name \<notin> set x_col_names"
  shows "eligible_rows ctx_col ctx_val x_col_names (assign_column name g d0) =
     map (\<lambda>row. (fst row, (snd row)(name := g row))) (eligible_rows ctx_col ctx_val x_col_names d0)"
proof -
  have same: "eligible ctx_col ctx_val x_col_names (fst row, (snd row)(name := g row)) =
      eligible ctx_col ctx_val x_col_names row" for row
    using assms by (auto simp: eligible_def list_all_iff)
  show ?thesis
    by (simp add: eligible_rows_def assign_column_def filter_map comp_def same)
qed

lemma notebook_columns_distinct:
  "''Nasal Segment'' \<noteq> ''Following Vowel''" "''Nasal Segment'' \<notin> set X_COL_NAMES"
  by (simp_all add: X_COL_NAMES_def)

text \<open>
  Claim C10. In the notebook's configuration, a source row whose \<^verbatim>\<open>Following Vowel\<close> is
  \<^verbatim>\<open>A\<close> and whose three formant columns are present is kept although its
  \<^verbatim>\<open>Nasal Segment\<close> is missing: at one and the same position the matrix holds its three
  formants and the label series holds its index with the missing label. Moreover,
  whatever is written into the \<^verbatim>\<open>Nasal Segment\<close> column, the matrix and the index labels
  of the kept rows stay the same.
\<close>

theorem eligibility_ignores_gold_label:
  assumes cols: "''Following Vowel'' \<in> set (columns d0)" "set X_COL_NAMES \<subseteq> set (columns d0)"
    "''Nasal Segment'' \<in> set (columns d0)"
    and row: "(i, r) \<in> set (records d0)"
    and ctx: "r ''Following Vowel'' = Str ''A''"
    and f: "r ''Juncture F1_Bark'' \<noteq> NA" "r ''Juncture F2_Bark'' \<noteq> NA" "r ''Juncture F3_Bark'' \<noteq> NA"
    and gold: "r ''Nasal Segment'' = NA"
  shows "\<exists>X Y_pandas.
     notebook_prepare d0 = Inr (X, Y_pandas) \<and>
     (\<exists>k. k < length Y_pandas \<and> length X = length Y_pandas \<and>
        X ! k = [r ''Juncture F1_Bark'', r ''Juncture F2_Bark'', r ''Juncture F3_Bark''] \<and>
        Y_pandas ! k = (i, NA)) \<and>
     (\<forall>g. \<exists>Y'. notebook_prepare (assign_column ''Nasal Segment'' g d0) = Inr (X, Y') \<and>
        map fst Y' = map fst Y_pandas)"
proof -
  let ?E = "eligible_rows ''Following Vowel'' ''A'' X_COL_NAMES d0"
  let ?X = "map (\<lambda>row. map (snd row) X_COL_NAMES) ?E"
  let ?Y = "map (\<lambda>row. (fst row, snd row ''Nasal Segment'')) ?E"
  have ne: "X_COL_NAMES \<noteq> []"
    by (simp add: X_COL_NAMES_def)
  have run: "notebook_prepare d0 = Inr (?X, ?Y)"
    unfolding notebook_prepare_def using cols(1,2) ne cols(3) by (rule prepare_result)
  have "(i, r) \<in> set ?E"
    using row ctx f by (simp add: eligible_rows_def eligible_def X_COL_NAMES_def)
  then obtain k where k: "k < length ?E" "?E ! k = (i, r)"
    by (auto simp: in_set_conv_nth)
  have at_k: "k < length ?Y \<and> length ?X = length ?Y \<and>
      ?X ! k = [r ''Juncture F1_Bark'', r ''Juncture F2_Bark'', r ''Juncture F3_Bark''] \<and>
      ?Y ! k = (i, NA)"
    using k gold by (simp add: X_COL_NAMES_def)
  have other: "\<exists>Y'. notebook_prepare (assign_column ''Nasal Segment'' g d0) = Inr (?X, Y') \<and>
      map fst Y' = map fst ?Y" for g
  proof -
    let ?d = "assign_column ''Nasal Segment'' g d0"
    have c: "columns ?d = columns d0"
      by (simp add: assign_column_def)
    have "notebook_prepare ?d =
        Inr (map (\<lambda>row. map (snd row) X_COL_NAMES) (eligible_rows ''Following Vowel'' ''A'' X_COL_NAMES ?d),
             map (\<lambda>row. (fst row, snd row ''Nasal Segment'')) (eligible_rows ''Following Vowel'' ''A'' X_COL_NAMES ?d))"
      unfolding notebook_prepare_def using cols ne by (intro prepare_result) (simp_all add: c)
    moreover have "map (\<lambda>row. map (snd row) X_COL_NAMES) (eligible_rows ''Following Vowel'' ''A'' X_COL_NAMES ?d) = ?X"
      by (simp add: eligible_assign_column [OF notebook_columns_distinct] comp_def)
        (simp add: X_COL_NAMES_def)
    moreover have "map fst (map (\<lambda>row. (fst row, snd row ''Nasal Segment'')) (eligible_rows ''Following Vowel'' ''A'' X_COL_NAMES ?d)) = map fst ?Y"
      by (simp add: eligible_assign_column [OF notebook_columns_distinct] comp_def)
    ultimately show ?thesis by simp
  qed
  from run at_k other show ?thesis by blast
qed

text \<open>
  Witness for C10: line 3 of the sample file has vowel \<^verbatim>\<open>A\<close>, three formants and no
  gold label; it is in both outputs.
\<close>

theorem eligibility_ignores_gold_label_witness:
  "''Following Vowel'' \<in> set (columns sample_frame) \<and>
   set X_COL_NAMES \<subseteq> set (columns sample_frame) \<and>
   ''Nasal Segment'' \<in> set (columns sample_frame) \<and>
   (3, csv_line (Str ''A'') (Num 6) (Num 11) (Num 14) NA) \<in> set (records sample_frame) \<and>
   csv_line (Str ''A'') (Num 6) (Num 11) (Num 14) NA ''Following Vowel'' = Str ''A'' \<and>
   csv_line (Str ''A'') (Num 6) (Num 11) (Num 14) NA ''Juncture F1_Bark'' \<noteq> NA \<and>
   csv_line (Str ''A'') (Num 6) (Num 11) (Num 14) NA ''Juncture F2_Bark'' \<noteq> NA \<and>
   csv_line (Str ''A'') (Num 6) (Num 11) (Num 14) NA ''Juncture F3_Bark'' \<noteq> NA \<and>
   csv_line (Str ''A'') (Num 6) (Num 11) (Num 14) NA ''Nasal Segment'' = NA \<and>
   (\<exists>X Y_pandas.
     notebook_prepare sample_frame = Inr (X, Y_pandas) \<and>
     (\<exists>k. k < length Y_pandas \<and> length X = length Y_pandas \<and>
        X ! k = [Num 6, Num 11, Num 14] \<and> Y_pandas ! k = (3, NA)))"
proof -
  let ?r = "csv_line (Str ''A'') (Num 6) (Num 11) (Num 14) NA"
  have h1: "''Following Vowel'' \<in> set (columns sample_frame)"
    by (simp add: sample_frame_def)
  have h2: "set X_COL_NAMES \<subseteq> set (columns sample_frame)"
    by (simp add: sample_frame_def X_COL_NAMES_def)
  have h3: "''Nasal Segment'' \<in> set (columns sample_frame)"
    by (simp add: sample_frame_def)
  have h4: "(3, ?r) \<in> set (records sample_frame)"
    by (simp add: sample_frame_def)
  have h5: "?r ''Following Vowel'' = Str ''A''"
    by (simp add: csv_line_def)
  have h6: "?r ''Juncture F1_Bark'' \<noteq> NA" "?r ''Juncture F2_Bark'' \<noteq> NA"
    "?r ''Juncture F3_Bark'' \<noteq> NA"
    by (simp_all add: csv_line_def)
  have h7: "?r ''Nasal Segment'' = NA"
    by (simp add: csv_line_def)
  have vals: "[?r ''Juncture F1_Bark'', ?r ''Juncture F2_Bark'', ?r ''Juncture F3_Bark''] =
      [Num 6, Num 11, Num 14]"
    by (simp add: csv_line_def)
  from eligibility_ignores_gold_label [OF h1 h2 h3 h4 h5 h6 h7]
  have "\<exists>X Y_pandas.
     notebook_prepare sample_frame = Inr (X, Y_pandas) \<and>
     (\<exists>k. k < length Y_pandas \<and> length X = length Y_pandas \<and>
        X ! k = [Num 6, Num 11, Num 14] \<and> Y_pandas ! k = (3, NA))"
    unfolding vals by blast
  with h1 h2 h3 h4 h5 h6 h7 show ?thesis by blast
qed

section \<open>Properties of cluster evaluation\<close>

text \<open>
  The function adds no failure of its own: a call raises exactly when one of the two
  metric routines raises, and with that routine's exception; the second routine is
  reached only after the first has given a number.
\<close>

lemma score_clustering_raises_iff:
  "fst (score_clustering ClusterScore_f1 normalized_mutual_info_score gld hyp logger log0) = Inl e
   \<longleftrightarrow> ClusterScore_f1 gld hyp = Inl e \<or>
       (\<exists>f1. ClusterScore_f1 gld hyp = Inr f1) \<and> normalized_mutual_info_score gld hyp = Inl e"
  by (auto simp: score_clustering_def Let_def split: sum.splits)

text \<open>
  Claim C9, as the specification states it: for equal-length sequences the operation
  returns the pair of metrics as its value. On the scenario gold = [A,A,B,B],
  hypothesis = [0,0,1,1] both routines give a number, and the value of the call is
  None, not a pair.
\<close>

theorem score_clustering_returns_no_metrics:
  "fst (score_clustering scenario_f1 scenario_nmi scenario_gold scenario_hyp logging_info []) =
     Inr PyNone \<and>
   \<not> returns_metric_pair
       (score_clustering scenario_f1 scenario_nmi scenario_gold scenario_hyp logging_info [])"
  by (simp add: score_clustering_def scenario_f1_def scenario_nmi_def returns_metric_pair_def)

text \<open>
  Claim C9, amended: for every pair of equal-length gold and hypothesis sequences on
  which both metric routines give a number, the operation hands the B-Cubed F1 and then
  the normalized mutual information to the logger, each with its format string, and
  its value is None.
\<close>

theorem score_clustering_logs_and_returns_None:
  assumes "length gld = length hyp"
    and "ClusterScore_f1 gld hyp = Inr f1"
    and "normalized_mutual_info_score gld hyp = Inr nmi"
  shows "score_clustering ClusterScore_f1 normalized_mutual_info_score gld hyp logger log0 =
           (Inr PyNone, logger NMI_FORMAT nmi (logger BCUBED_FORMAT f1 log0))"
  using assms by (simp add: score_clustering_def)

text \<open>
  Witness for C9: the scenario with \<^verbatim>\<open>logging.info\<close> as the logger and an empty log; two
  records are emitted, B-Cubed first.
\<close>

theorem score_clustering_logs_and_returns_None_witness:
  "length scenario_gold = length scenario_hyp \<and>
   scenario_f1 scenario_gold scenario_hyp = Inr 1 \<and>
   scenario_nmi scenario_gold scenario_hyp = Inr 1 \<and>
   score_clustering scenario_f1 scenario_nmi scenario_gold scenario_hyp logging_info [] =
     (Inr PyNone, [(BCUBED_FORMAT, 1), (NMI_FORMAT, 1)])"
proof -
  have h1: "length scenario_gold = length scenario_hyp"
    by (simp add: scenario_gold_def scenario_hyp_def)
  have h2: "scenario_f1 scenario_gold scenario_hyp = Inr 1"
    by (simp add: scenario_f1_def)
  have h3: "scenario_nmi scenario_gold scenario_hyp = Inr 1"
    by (simp add: scenario_nmi_def)
  have "score_clustering scenario_f1 scenario_nmi scenario_gold scenario_hyp logging_info [] =
      (Inr PyNone, logging_info NMI_FORMAT 1 (logging_info BCUBED_FORMAT 1 []))"
    using h1 h2 h3 by (rule score_clustering_logs_and_returns_None)
  then show ?thesis
    using h1 h2 h3 by (simp add: logging_info_def)
qed

end
